theory Spec2Isabelle
  imports Complex_Main "HOL-Library.Word" "HOL-Library.Multiset"
begin

unbundle bit_operations_syntax

section \<open>Values\<close>

text \<open>
  Go's \<^verbatim>\<open>float32\<close>. A finite value is the rational it denotes (both zeros are the
  rational 0, which Go's \<^verbatim>\<open>==\<close> equates as well); the infinities and NaN are values of
  their own. The serializers only compare a float with the constants 0 and 1 by
  \<^verbatim>\<open>!=\<close>, which on these values is inequality of the datatype.
\<close>

datatype float32 = Fin rat | PosInf | NegInf | NaN

text \<open>
  One element of a \<^verbatim>\<open>redis.Args\<close> (a \<^verbatim>\<open>[]interface{}\<close>): the dynamic values the
  serializers put there.
\<close>

datatype arg = AStr string | AInt int | AFloat float32 | ABytes "char list"

type_synonym Args = "arg list"

text \<open>\<^verbatim>\<open>Args.AddFlat\<close> on a \<^verbatim>\<open>[]string\<close>: every element becomes one argument.\<close>

definition AddFlat :: "Args \<Rightarrow> string list \<Rightarrow> Args" where
  "AddFlat args xs = args @ map AStr xs"

section \<open>Queries\<close>

type_synonym Flag = "64 word"

definition QueryVerbatim :: Flag where "QueryVerbatim = 0x1"
definition QueryNoContent :: Flag where "QueryNoContent = 0x2"
definition QueryWithScores :: Flag where "QueryWithScores = 0x4"
definition QueryInOrder :: Flag where "QueryInOrder = 0x08"
definition QueryWithPayloads :: Flag where "QueryWithPayloads = 0x10"

definition DefaultOffset :: int where "DefaultOffset = 0"
definition DefaultNum :: int where "DefaultNum = 10"

record SortingKey =
  Field :: string
  Ascending :: bool

definition SortingKey_Serialize :: "SortingKey \<Rightarrow> Args" where
  "SortingKey_Serialize s =
     (let args = [AStr (Field s)] in
      if Ascending s then args @ [AStr ''ASC''] else args @ [AStr ''DESC''])"

text \<open>A slice is \<open>None\<close> when it is nil and \<open>Some xs\<close> otherwise; \<open>Some []\<close> is the
  empty slice that is not nil. \<^verbatim>\<open>Tags\<close> is a \<^verbatim>\<open>[2]string\<close>.\<close>

record HighlightOptions =
  Fields :: "string list option"
  Tags :: "string \<times> string"

record SummaryOptions =
  Fields :: "string list option"
  FragmentLen :: int
  NumFragments :: int
  Separator :: string

record Paging =
  Offset :: int
  Num :: int

typedecl Predicate

record Query =
  Raw :: string
  Paging :: Paging
  Flags :: Flag
  Slop :: int
  Filters :: "Predicate list"
  InKeys :: "string list option"
  ReturnFields :: "string list option"
  Language :: string
  Expander :: string
  Scorer :: string
  Payload :: "char list option"
  SortBy :: "SortingKey option"
  HighlightOpts :: "HighlightOptions option"
  SummarizeOpts :: "SummaryOptions option"

definition Paging_serialize :: "Paging \<Rightarrow> Args" where
  "Paging_serialize p =
     (let args = [] in
      if \<not> (Offset p = DefaultOffset \<and> Num p = DefaultNum)
      then args @ [AStr ''LIMIT'', AInt (Offset p), AInt (Num p)]
      else args)"

definition Query_serialize :: "Query \<Rightarrow> Args" where
  "Query_serialize q =
     (let args = [AStr (Raw q)] @ Paging_serialize (Paging q);
          args = (if Flags q AND QueryVerbatim \<noteq> 0 then args @ [AStr ''VERBATIM''] else args);
          args = (if Flags q AND QueryNoContent \<noteq> 0 then args @ [AStr ''NOCONTENT''] else args);
          args = (if Flags q AND QueryInOrder \<noteq> 0 then args @ [AStr ''INORDER''] else args);
          args = (if Flags q AND QueryWithPayloads \<noteq> 0 then args @ [AStr ''WITHPAYLOADS''] else args);
          args = (if Flags q AND QueryWithScores \<noteq> 0 then args @ [AStr ''WITHSCORES''] else args);
          args = (case InKeys q of
                    None \<Rightarrow> args
                  | Some ks \<Rightarrow> AddFlat (args @ [AStr ''INKEYS'', AInt (int (length ks))]) ks);
          args = (case ReturnFields q of
                    None \<Rightarrow> args
                  | Some fs \<Rightarrow> AddFlat (args @ [AStr ''RETURN'', AInt (int (length fs))]) fs);
          args = (if Scorer q \<noteq> '''' then args @ [AStr ''SCORER'', AStr (Scorer q)] else args);
          args = (if Query.Language q \<noteq> '''' then args @ [AStr ''LANGUAGE'', AStr (Query.Language q)] else args);
          args = (if Expander q \<noteq> '''' then args @ [AStr ''EXPANDER'', AStr (Expander q)] else args);
          args = (case SortBy q of
                    None \<Rightarrow> args
                  | Some s \<Rightarrow> (args @ [AStr ''SORTBY'']) @ SortingKey_Serialize s);
          args = (case HighlightOpts q of
                    None \<Rightarrow> args
                  | Some h \<Rightarrow>
                      (let args = args @ [AStr ''HIGHLIGHT''];
                           args = (case HighlightOptions.Fields h of
                                     None \<Rightarrow> args
                                   | Some fs \<Rightarrow>
                                       if length fs > 0
                                       then AddFlat (args @ [AStr ''FIELDS'', AInt (int (length fs))]) fs
                                       else args)
                       in args @ [AStr ''TAGS'', AStr (fst (Tags h)), AStr (snd (Tags h))]));
          args = (case SummarizeOpts q of
                    None \<Rightarrow> args
                  | Some s \<Rightarrow>
                      (let args = args @ [AStr ''SUMMARIZE''];
                           args = (case SummaryOptions.Fields s of
                                     None \<Rightarrow> args
                                   | Some fs \<Rightarrow>
                                       if length fs > 0
                                       then AddFlat (args @ [AStr ''FIELDS'', AInt (int (length fs))]) fs
                                       else args);
                           args = (if FragmentLen s > 0 then args @ [AStr ''LEN'', AInt (FragmentLen s)] else args);
                           args = (if NumFragments s > 0 then args @ [AStr ''FRAGS'', AInt (NumFragments s)] else args);
                           args = (if SummaryOptions.Separator s \<noteq> '''' then args @ [AStr ''SEPARATOR'', AStr (SummaryOptions.Separator s)] else args)
                       in args))
      in args)"

section \<open>Field types and errors\<close>

text \<open>
  Modelled from the spec: the declaration of the field types is not among the sources
  (``typed field descriptors (text/numeric/tag)''). \<open>OtherFieldType\<close> stands for every
  value of the Go type that is none of the three constants \<^verbatim>\<open>SerializeSchema\<close> switches on;
  such a field reaches the \<^verbatim>\<open>default\<close> branch.
\<close>

datatype FieldType = TextField | NumericField | TagField | OtherFieldType nat

text \<open>
  A Go \<^verbatim>\<open>error\<close> value: one made from a message (\<^verbatim>\<open>errors.New\<close>, or an error of the
  connection), or the \<^verbatim>\<open>fmt.Errorf("Unsupported field type %v", f.Type)\<close> of the schema
  serializer, which is determined by the field type.
\<close>

datatype error = Error string | UnsupportedFieldType FieldType

section \<open>Indexing options\<close>

text \<open>
  Modelled from the spec: the declaration of \<^verbatim>\<open>IndexingOptions\<close> is not among the sources
  (``skip-save, language, replace, partial-update implies replace, conditional replace
  expression''); the fields are the ones \<^verbatim>\<open>SerializeIndexingOptions\<close> reads.
\<close>

record IndexingOptions =
  Language :: string
  NoSave :: bool
  Replace :: bool
  Partial :: bool
  ReplaceCondition :: string

text \<open>
  \<^verbatim>\<open>opts\<close> is passed by value: the assignment \<^verbatim>\<open>opts.Replace = true\<close> changes the copy of
  the callee, which is the rebinding of \<open>opts\<close> below; the caller's value is never written.
\<close>

definition SerializeIndexingOptions :: "IndexingOptions \<Rightarrow> Args \<Rightarrow> Args" where
  "SerializeIndexingOptions opts args =
     (let args = (if NoSave opts then args @ [AStr ''NOSAVE''] else args);
          args = (if IndexingOptions.Language opts \<noteq> ''''
                  then args @ [AStr ''LANGUAGE'', AStr (IndexingOptions.Language opts)] else args);
          opts = (if Partial opts then opts\<lparr>Replace := True\<rparr> else opts);
          args = (if Replace opts
                  then (let args = args @ [AStr ''REPLACE''];
                            args = (if Partial opts then args @ [AStr ''PARTIAL''] else args);
                            args = (if ReplaceCondition opts \<noteq> ''''
                                    then args @ [AStr ''IF'', AStr (ReplaceCondition opts)] else args)
                        in args)
                  else args)
      in args)"

section \<open>Schemas\<close>

text \<open>
  Modelled from the spec: the declarations of the schema, its fields and the per-type
  field options are not among the sources (``ordered list of typed field descriptors
  (text/numeric/tag), each with type-specific options (weight, stemming, sortable, indexed,
  separator)''); the fields are the ones \<^verbatim>\<open>SerializeSchema\<close> reads. \<^verbatim>\<open>Separator\<close> of the
  tag options is a byte.
\<close>

record TextFieldOptions =
  Weight :: float32
  Sortable :: bool
  NoStem :: bool
  NoIndex :: bool

record NumericFieldOptions =
  Sortable :: bool
  NoIndex :: bool

record TagFieldOptions =
  Separator :: "8 word"
  NoIndex :: bool
  Sortable :: bool

text \<open>
  The \<^verbatim>\<open>Options interface{}\<close> of a field: nil is \<open>None\<close>; otherwise the value has a
  dynamic type, which the type assertions of \<^verbatim>\<open>SerializeSchema\<close> test. \<open>OfOtherType\<close>
  is a value of any type other than the three option structs.
\<close>

datatype FieldOptions =
    OfTextFieldOptions TextFieldOptions
  | OfNumericFieldOptions NumericFieldOptions
  | OfTagFieldOptions TagFieldOptions
  | OfOtherType

record Field =
  Name :: string
  Type :: FieldType
  Options :: "FieldOptions option"

record Options =
  NoFieldFlags :: bool
  NoFrequencies :: bool
  NoOffsetVectors :: bool
  Stopwords :: "string list option"

record Schema =
  Fields :: "Field list"
  Options :: Options

text \<open>\<^verbatim>\<open>fmt.Sprintf("%c", b)\<close> for a byte \<open>b\<close>: the UTF-8 encoding of the code point \<open>b\<close>.\<close>

definition Sprintf_c :: "8 word \<Rightarrow> string" where
  "Sprintf_c b =
     (if unat b < 128 then [char_of (unat b)]
      else [char_of (192 + unat b div 64), char_of (128 + unat b mod 64)])"

text \<open>The body of the loop over \<^verbatim>\<open>s.Fields\<close>: \<open>Inl\<close> is the \<^verbatim>\<open>return nil, err\<close>.\<close>

definition SerializeSchema_field :: "Field \<Rightarrow> Args \<Rightarrow> error + Args" where
  "SerializeSchema_field f args =
     (case Type f of
        TextField \<Rightarrow>
          (let args = args @ [AStr (Name f), AStr ''TEXT''] in
           case Field.Options f of
             None \<Rightarrow> Inr args
           | Some v \<Rightarrow>
               (case v of
                  OfTextFieldOptions opts \<Rightarrow>
                    (let args = (if Weight opts \<noteq> Fin 0 \<and> Weight opts \<noteq> Fin 1
                                 then args @ [AStr ''WEIGHT'', AFloat (Weight opts)] else args);
                         args = (if NoStem opts then args @ [AStr ''NOSTEM''] else args);
                         args = (if TextFieldOptions.Sortable opts then args @ [AStr ''SORTABLE''] else args);
                         args = (if TextFieldOptions.NoIndex opts then args @ [AStr ''NOINDEX''] else args)
                     in Inr args)
                | _ \<Rightarrow> Inl (Error ''Invalid text field options type'')))
      | NumericField \<Rightarrow>
          (let args = args @ [AStr (Name f), AStr ''NUMERIC''] in
           case Field.Options f of
             None \<Rightarrow> Inr args
           | Some v \<Rightarrow>
               (case v of
                  OfNumericFieldOptions opts \<Rightarrow>
                    (let args = (if NumericFieldOptions.Sortable opts then args @ [AStr ''SORTABLE''] else args);
                         args = (if NumericFieldOptions.NoIndex opts then args @ [AStr ''NOINDEX''] else args)
                     in Inr args)
                | _ \<Rightarrow> Inl (Error ''Invalid numeric field options type'')))
      | TagField \<Rightarrow>
          (let args = args @ [AStr (Name f), AStr ''TAG''] in
           case Field.Options f of
             None \<Rightarrow> Inr args
           | Some v \<Rightarrow>
               (case v of
                  OfTagFieldOptions opts \<Rightarrow>
                    (let args = (if TagFieldOptions.Separator opts \<noteq> 0
                                 then args @ [AStr ''SEPARATOR'', AStr (Sprintf_c (TagFieldOptions.Separator opts))]
                                 else args);
                         args = (if TagFieldOptions.Sortable opts then args @ [AStr ''SORTABLE''] else args);
                         args = (if TagFieldOptions.NoIndex opts then args @ [AStr ''NOINDEX''] else args)
                     in Inr args)
                | _ \<Rightarrow> Inl (Error ''Invalid tag field options type'')))
      | OtherFieldType n \<Rightarrow> Inl (UnsupportedFieldType (Type f)))"

fun SerializeSchema_fields :: "Field list \<Rightarrow> Args \<Rightarrow> error + Args" where
  "SerializeSchema_fields [] args = Inr args"
| "SerializeSchema_fields (f # fs) args =
     (case SerializeSchema_field f args of
        Inl err \<Rightarrow> Inl err
      | Inr args \<Rightarrow> SerializeSchema_fields fs args)"

definition SerializeSchema :: "Schema \<Rightarrow> Args \<Rightarrow> error + Args" where
  "SerializeSchema s args =
     (let args = (if NoFieldFlags (Schema.Options s) then args @ [AStr ''NOFIELDS''] else args);
          args = (if NoFrequencies (Schema.Options s) then args @ [AStr ''NOFREQS''] else args);
          args = (if NoOffsetVectors (Schema.Options s) then args @ [AStr ''NOOFFSETS''] else args);
          args = (case Stopwords (Schema.Options s) of
                    None \<Rightarrow> args
                  | Some ws \<Rightarrow>
                      (let args = args @ [AStr ''STOPWORDS'', AInt (int (length ws))]
                       in if length ws > 0 then AddFlat args ws else args));
          args = args @ [AStr ''SCHEMA'']
      in SerializeSchema_fields (Schema.Fields s) args)"

section \<open>The bulk indexing pipeline\<close>

text \<open>
  Modelled from the spec: the declaration of \<^verbatim>\<open>Document\<close> is not among the sources
  (``identifier (string, unique within an index), relevance score (floating point, default
  1.0), optional binary payload, ordered mapping of field name \<open>\<rightarrow>\<close> field value
  (strings/numbers)''). \<^verbatim>\<open>IndexOptions\<close> takes the \<^verbatim>\<open>len\<close> of \<^verbatim>\<open>Properties\<close> and
  ranges over it with a key \<^verbatim>\<open>k\<close> and a value \<^verbatim>\<open>f\<close>, appending both as the field name
  and its value: \<^verbatim>\<open>Properties\<close> is a Go map. A Go map has no order of its own, and the
  order in which a \<^verbatim>\<open>range\<close> yields its pairs is not specified; so the order of the
  spec's ``ordered mapping'' is not part of the value here, it is a parameter of the loop
  (\<open>range_order\<close> below).
\<close>

record Document =
  Id :: string
  Score :: float32
  Payload :: "char list option"
  Properties :: "string \<rightharpoonup> arg"

text \<open>
  Modelled from the spec: \<^verbatim>\<open>MultiError\<close> and \<^verbatim>\<open>NewMultiError\<close> are not among the sources
  (``a fixed-length ordered sequence the same length as the batch it reports on; each slot
  is either absent (success) or a captured failure''; ``constructing it allocates N absent
  slots''). A nil \<^verbatim>\<open>MultiError\<close> is \<open>None\<close> of \<open>MultiError option\<close>.
\<close>

type_synonym MultiError = "error option list"

definition NewMultiError :: "nat \<Rightarrow> MultiError" where
  "NewMultiError len = replicate len None"

text \<open>
  What \<^verbatim>\<open>IndexOptions\<close> returns as its \<^verbatim>\<open>error\<close>: nil, a plain error, or a
  \<^verbatim>\<open>MultiError\<close> that is not nil. \<open>Panic\<close> is the run-time panic of an index out of
  range.
\<close>

datatype result = Nil | Failure error | Multi MultiError | Panic

text \<open>
  The connection taken from the pool, as the calls made on it: the commands handed to
  \<^verbatim>\<open>Send\<close> (a failed one included), and how often \<^verbatim>\<open>Flush\<close> and \<^verbatim>\<open>Receive\<close> were
  called, and whether it was closed.
\<close>

record Conn =
  sent :: "(string \<times> Args) list"
  flushes :: nat
  receives :: nat
  closed :: bool

text \<open>
  What the code does not decide: the outcome of the \<open>i\<close>-th call of \<^verbatim>\<open>Send\<close>, of the
  call of \<^verbatim>\<open>Flush\<close> and of the \<open>i\<close>-th call of \<^verbatim>\<open>Receive\<close> (counted from 0; a
  pipelined connection delivers the replies in the order of the commands, so the
  \<open>i\<close>-th \<^verbatim>\<open>Receive\<close> is the reply to the document at position \<open>i\<close>), and the order in
  which the \<^verbatim>\<open>range\<close> over the \<^verbatim>\<open>Properties\<close> of the \<open>i\<close>-th document yields its
  pairs, which Go leaves unspecified.
\<close>

record Env =
  send_result :: "nat \<Rightarrow> error option"
  flush_result :: "error option"
  receive_result :: "nat \<Rightarrow> error option"
  range_order :: "nat \<Rightarrow> (string \<times> arg) list"


text \<open>The arguments of the \<^verbatim>\<open>FT.ADD\<close> of one document, as the body of the first loop
  of \<^verbatim>\<open>IndexOptions\<close> builds them; \<open>kvs\<close> are the pairs in the order the \<^verbatim>\<open>range\<close>
  yields them.\<close>

definition IndexOptions_args ::
  "string \<Rightarrow> IndexingOptions \<Rightarrow> Document \<Rightarrow> (string \<times> arg) list \<Rightarrow> Args" where
  "IndexOptions_args name opts doc kvs =
     (let args = [AStr name, AStr (Id doc), AFloat (Score doc)];
          args = SerializeIndexingOptions opts args;
          args = (case Document.Payload doc of
                    None \<Rightarrow> args
                  | Some p \<Rightarrow> args @ [AStr ''PAYLOAD'', ABytes p]);
          args = args @ [AStr ''FIELDS'']
      in foldl (\<lambda>args (k, f). args @ [AStr k, f]) args kvs)"

text \<open>
  The first loop, at position \<open>ii\<close> with \<open>rest\<close> the documents from there on. \<open>Inl\<close>
  is a \<^verbatim>\<open>return\<close> out of \<^verbatim>\<open>IndexOptions\<close>; \<open>Inr\<close> the values of \<^verbatim>\<open>n\<close> and
  \<^verbatim>\<open>merr\<close> when the loop is through.
\<close>

fun send_loop ::
  "Env \<Rightarrow> string \<Rightarrow> IndexingOptions \<Rightarrow> Document list \<Rightarrow> nat \<Rightarrow> Document list \<Rightarrow> nat
     \<Rightarrow> MultiError option \<Rightarrow> Conn \<Rightarrow> (result + nat \<times> MultiError option) \<times> Conn" where
  "send_loop env name opts docs ii [] n merr conn = (Inr (n, merr), conn)"
| "send_loop env name opts docs ii (doc # rest) n merr conn =
     (let args = IndexOptions_args name opts doc (range_order env ii);
          conn = conn\<lparr>sent := sent conn @ [(''FT.ADD'', args)]\<rparr>
      in case send_result env ii of
           Some err \<Rightarrow>
             (let merr = (case merr of None \<Rightarrow> NewMultiError (length docs) | Some m \<Rightarrow> m)
              in if ii < length merr
                 then (Inl (Multi (merr[ii := Some err])), conn)
                 else (Inl Panic, conn))
         | None \<Rightarrow> send_loop env name opts docs (ii + 1) rest (n + 1) merr conn)"

text \<open>The second loop, \<^verbatim>\<open>for n > 0 { ...; n-- }\<close>: in the second equation \<^verbatim>\<open>n\<close> is
  \<open>Suc m\<close>, so \<^verbatim>\<open>n-1\<close> is \<open>m\<close>.\<close>

fun receive_loop ::
  "Env \<Rightarrow> Document list \<Rightarrow> nat \<Rightarrow> MultiError option \<Rightarrow> Conn
     \<Rightarrow> (result + MultiError option) \<times> Conn" where
  "receive_loop env docs 0 merr conn = (Inr merr, conn)"
| "receive_loop env docs (Suc m) merr conn =
     (let r = receive_result env (receives conn);
          conn = conn\<lparr>receives := receives conn + 1\<rparr>
      in case r of
           Some err \<Rightarrow>
             (let merr = (case merr of None \<Rightarrow> NewMultiError (length docs) | Some x \<Rightarrow> x)
              in if m < length merr
                 then receive_loop env docs m (Some (merr[m := Some err])) conn
                 else (Inl Panic, conn))
         | None \<Rightarrow> receive_loop env docs m merr conn)"

text \<open>\<^verbatim>\<open>IndexOptions\<close> on the index \<open>name\<close>: the result and the connection as it is left
  (\<^verbatim>\<open>defer conn.Close()\<close>).\<close>

definition IndexOptions ::
  "Env \<Rightarrow> string \<Rightarrow> IndexingOptions \<Rightarrow> Document list \<Rightarrow> result \<times> Conn" where
  "IndexOptions env name opts docs =
     (let conn = \<lparr>sent = [], flushes = 0, receives = 0, closed = False\<rparr>;
          (ret, conn) =
            (case send_loop env name opts docs 0 docs 0 None conn of
               (Inl ret, conn) \<Rightarrow> (ret, conn)
             | (Inr (n, merr), conn) \<Rightarrow>
                 (let conn = conn\<lparr>flushes := flushes conn + 1\<rparr>
                  in case flush_result env of
                       Some err \<Rightarrow> (Failure err, conn)
                     | None \<Rightarrow>
                         (case receive_loop env docs n merr conn of
                            (Inl ret, conn) \<Rightarrow> (ret, conn)
                          | (Inr None, conn) \<Rightarrow> (Nil, conn)
                          | (Inr (Some m), conn) \<Rightarrow> (Multi m, conn))))
      in (ret, conn\<lparr>closed := True\<rparr>))"

section \<open>Example values\<close>

text \<open>The default indexing options and some documents, for the instances below.\<close>

abbreviation default_opts :: IndexingOptions where
  "default_opts \<equiv>
     \<lparr>Language = '''', NoSave = False, Replace = False, Partial = False, ReplaceCondition = ''''\<rparr>"


abbreviation doc_foo :: "string \<Rightarrow> Document" where
  "doc_foo name \<equiv>
     \<lparr>Id = name, Score = Fin 1, Payload = None, Properties = [''foo'' \<mapsto> AStr ''hello world'']\<rparr>"

section \<open>The layout of a serialized query\<close>

lemma if_append_right: "(if c then args @ xs else args) = args @ (if c then xs else [])"
  by simp

lemma option_append_right:
  "(case x of None \<Rightarrow> args | Some v \<Rightarrow> args @ f v) = args @ (case x of None \<Rightarrow> [] | Some v \<Rightarrow> f v)"
  by (cases x) simp_all

lemma flag_bits:
  "(fl AND QueryVerbatim \<noteq> 0) = bit fl 0"
  "(fl AND QueryNoContent \<noteq> 0) = bit fl 1"
  "(fl AND QueryWithScores \<noteq> 0) = bit fl 2"
  "(fl AND QueryInOrder \<noteq> 0) = bit fl 3"
  "(fl AND QueryWithPayloads \<noteq> 0) = bit fl 4"
  for fl :: Flag
  by (simp_all add: bit_iff_and_push_bit_not_eq_0 QueryVerbatim_def QueryNoContent_def
      QueryWithScores_def QueryInOrder_def QueryWithPayloads_def)

lemma Query_serialize_layout:
  "Query_serialize q =
     AStr (Raw q) # Paging_serialize (Paging q)
     @ (if bit (Flags q) 0 then [AStr ''VERBATIM''] else [])
     @ (if bit (Flags q) 1 then [AStr ''NOCONTENT''] else [])
     @ (if bit (Flags q) 3 then [AStr ''INORDER''] else [])
     @ (if bit (Flags q) 4 then [AStr ''WITHPAYLOADS''] else [])
     @ (if bit (Flags q) 2 then [AStr ''WITHSCORES''] else [])
     @ (case InKeys q of None \<Rightarrow> []
        | Some ks \<Rightarrow> AStr ''INKEYS'' # AInt (int (length ks)) # map AStr ks)
     @ (case ReturnFields q of None \<Rightarrow> []
        | Some fs \<Rightarrow> AStr ''RETURN'' # AInt (int (length fs)) # map AStr fs)
     @ (if Scorer q \<noteq> '''' then [AStr ''SCORER'', AStr (Scorer q)] else [])
     @ (if Query.Language q \<noteq> '''' then [AStr ''LANGUAGE'', AStr (Query.Language q)] else [])
     @ (if Expander q \<noteq> '''' then [AStr ''EXPANDER'', AStr (Expander q)] else [])
     @ (case SortBy q of None \<Rightarrow> []
        | Some s \<Rightarrow> AStr ''SORTBY'' # (if Ascending s then [AStr (Field s), AStr ''ASC''] else [AStr (Field s), AStr ''DESC'']))
     @ (case HighlightOpts q of None \<Rightarrow> []
        | Some h \<Rightarrow>
            AStr ''HIGHLIGHT''
            # (case HighlightOptions.Fields h of None \<Rightarrow> []
               | Some fs \<Rightarrow> if fs \<noteq> [] then AStr ''FIELDS'' # AInt (int (length fs)) # map AStr fs else [])
            @ [AStr ''TAGS'', AStr (fst (Tags h)), AStr (snd (Tags h))])
     @ (case SummarizeOpts q of None \<Rightarrow> []
        | Some s \<Rightarrow>
            AStr ''SUMMARIZE''
            # (case SummaryOptions.Fields s of None \<Rightarrow> []
               | Some fs \<Rightarrow> if fs \<noteq> [] then AStr ''FIELDS'' # AInt (int (length fs)) # map AStr fs else [])
            @ (if 0 < FragmentLen s then [AStr ''LEN'', AInt (FragmentLen s)] else [])
            @ (if 0 < NumFragments s then [AStr ''FRAGS'', AInt (NumFragments s)] else [])
            @ (if SummaryOptions.Separator s \<noteq> '''' then [AStr ''SEPARATOR'', AStr (SummaryOptions.Separator s)] else []))"
  unfolding Query_serialize_def
  by (simp add: Let_def AddFlat_def SortingKey_Serialize_def flag_bits if_append_right option_append_right
      split del: if_split cong: if_cong option.case_cong)

section \<open>The layout of the other serializers\<close>

lemma SerializeIndexingOptions_layout:
  "SerializeIndexingOptions opts args =
     args
     @ (if NoSave opts then [AStr ''NOSAVE''] else [])
     @ (if IndexingOptions.Language opts \<noteq> '''' then [AStr ''LANGUAGE'', AStr (IndexingOptions.Language opts)] else [])
     @ (if Replace opts \<or> Partial opts
        then AStr ''REPLACE''
             # (if Partial opts then [AStr ''PARTIAL''] else [])
             @ (if ReplaceCondition opts \<noteq> '''' then [AStr ''IF'', AStr (ReplaceCondition opts)] else [])
        else [])"
  by (simp add: SerializeIndexingOptions_def Let_def)

lemma SerializeSchema_fields_append:
  "SerializeSchema_fields (xs @ ys) args =
     (case SerializeSchema_fields xs args of
        Inl err \<Rightarrow> Inl err
      | Inr args' \<Rightarrow> SerializeSchema_fields ys args')"
  by (induction xs arbitrary: args) (simp_all split: sum.splits)

lemma SerializeSchema_layout:
  "SerializeSchema s args =
     SerializeSchema_fields (Schema.Fields s)
       (args
        @ (if NoFieldFlags (Schema.Options s) then [AStr ''NOFIELDS''] else [])
        @ (if NoFrequencies (Schema.Options s) then [AStr ''NOFREQS''] else [])
        @ (if NoOffsetVectors (Schema.Options s) then [AStr ''NOOFFSETS''] else [])
        @ (case Stopwords (Schema.Options s) of
             None \<Rightarrow> []
           | Some ws \<Rightarrow> AStr ''STOPWORDS'' # AInt (int (length ws)) # map AStr ws)
        @ [AStr ''SCHEMA''])"
  by (cases "Stopwords (Schema.Options s)") (simp_all add: SerializeSchema_def Let_def AddFlat_def)

lemma SerializeSchema_split:
  "SerializeSchema (s\<lparr>Schema.Fields := pre @ f # post\<rparr>) args =
     (case SerializeSchema (s\<lparr>Schema.Fields := pre\<rparr>) args of
        Inl err \<Rightarrow> Inl err
      | Inr a \<Rightarrow>
          (case SerializeSchema_field f a of
             Inl err \<Rightarrow> Inl err
           | Inr a' \<Rightarrow> SerializeSchema_fields post a'))"
  by (simp add: SerializeSchema_layout SerializeSchema_fields_append split: sum.splits)

lemma SerializeSchema_field_text:
  "SerializeSchema_field \<lparr>Name = n, Type = TextField, Options = Some (OfTextFieldOptions opts)\<rparr> args =
     Inr (args @ [AStr n, AStr ''TEXT'']
          @ (if Weight opts \<noteq> Fin 0 \<and> Weight opts \<noteq> Fin 1 then [AStr ''WEIGHT'', AFloat (Weight opts)] else [])
          @ (if NoStem opts then [AStr ''NOSTEM''] else [])
          @ (if TextFieldOptions.Sortable opts then [AStr ''SORTABLE''] else [])
          @ (if TextFieldOptions.NoIndex opts then [AStr ''NOINDEX''] else []))"
  by (simp add: SerializeSchema_field_def Let_def)

lemma SerializeSchema_field_error:
  assumes "(\<exists>v. Field.Options f = Some v \<and>
               (Type f = TextField \<and> (\<forall>opts. v \<noteq> OfTextFieldOptions opts)
                \<or> Type f = NumericField \<and> (\<forall>opts. v \<noteq> OfNumericFieldOptions opts)
                \<or> Type f = TagField \<and> (\<forall>opts. v \<noteq> OfTagFieldOptions opts)))
           \<or> Type f \<notin> {TextField, NumericField, TagField}"
  shows "\<exists>err. SerializeSchema_field f args = Inl err"
  using assms
  by (cases "Type f"; cases "Field.Options f")
     (auto simp add: SerializeSchema_field_def Let_def split: FieldOptions.splits)

lemma SerializeSchema_fields_error:
  "f \<in> set fs \<Longrightarrow> \<forall>a. \<exists>err. SerializeSchema_field f a = Inl err
     \<Longrightarrow> \<exists>err. SerializeSchema_fields fs args = Inl err"
proof (induction fs arbitrary: args)
  case Nil
  then show ?case by simp
next
  case (Cons g gs)
  show ?case
  proof (cases "SerializeSchema_field g args")
    case (Inl err)
    then show ?thesis by simp
  next
    case (Inr a)
    with Cons.prems(2) have "g \<noteq> f" by (metis sum.distinct(1))
    with Cons.prems(1) have "f \<in> set gs" by simp
    from Cons.IH [OF this Cons.prems(2)] Inr show ?thesis by simp
  qed
qed

text \<open>The loop over the fields only appends: what it returns is the arguments it was
  given, followed by what it returns on the empty argument list.\<close>

lemma SerializeSchema_field_prefix:
  "SerializeSchema_field f args =
     (case SerializeSchema_field f [] of
        Inl err \<Rightarrow> Inl err
      | Inr g \<Rightarrow> Inr (args @ g))"
  by (cases "Type f"; cases "Field.Options f")
     (simp_all add: SerializeSchema_field_def Let_def split: FieldOptions.splits)

lemma SerializeSchema_fields_prefix:
  "SerializeSchema_fields fs args =
     (case SerializeSchema_fields fs [] of
        Inl err \<Rightarrow> Inl err
      | Inr g \<Rightarrow> Inr (args @ g))"
proof (induction fs arbitrary: args)
  case Nil
  show ?case by simp
next
  case (Cons f fs)
  show ?case
  proof (cases "SerializeSchema_field f []")
    case (Inl err)
    then show ?thesis
      using SerializeSchema_field_prefix [of f args] by simp
  next
    case (Inr g)
    then have here: "SerializeSchema_field f args = Inr (args @ g)"
      using SerializeSchema_field_prefix [of f args] by simp
    show ?thesis
    proof (cases "SerializeSchema_fields fs []")
      case (Inl err)
      then show ?thesis
        using Inr here Cons.IH [of g] Cons.IH [of "args @ g"] by simp
    next
      case (Inr gs)
      then show ?thesis
        using \<open>SerializeSchema_field f [] = Inr g\<close> here Cons.IH [of g] Cons.IH [of "args @ g"]
        by simp
    qed
  qed
qed

lemma SerializeSchema_output:
  "SerializeSchema s args =
     (case SerializeSchema_fields (Schema.Fields s) [] of
        Inl err \<Rightarrow> Inl err
      | Inr groups \<Rightarrow>
          Inr (args
               @ (if NoFieldFlags (Schema.Options s) then [AStr ''NOFIELDS''] else [])
               @ (if NoFrequencies (Schema.Options s) then [AStr ''NOFREQS''] else [])
               @ (if NoOffsetVectors (Schema.Options s) then [AStr ''NOOFFSETS''] else [])
               @ (case Stopwords (Schema.Options s) of
                    None \<Rightarrow> []
                  | Some ws \<Rightarrow> AStr ''STOPWORDS'' # AInt (int (length ws)) # map AStr ws)
               @ AStr ''SCHEMA'' # groups))"
  unfolding SerializeSchema_layout
  by (subst SerializeSchema_fields_prefix) (simp split: sum.splits)

lemma SerializeSchema_split_output:
  "SerializeSchema (s\<lparr>Schema.Fields := pre @ f # post\<rparr>) args =
     (case SerializeSchema (s\<lparr>Schema.Fields := pre\<rparr>) args of
        Inl err \<Rightarrow> Inl err
      | Inr a \<Rightarrow>
          (case SerializeSchema_field f [] of
             Inl err \<Rightarrow> Inl err
           | Inr g \<Rightarrow>
               (case SerializeSchema_fields post [] of
                  Inl err \<Rightarrow> Inl err
                | Inr gs \<Rightarrow> Inr (a @ g @ gs))))"
proof -
  have "SerializeSchema (s\<lparr>Schema.Fields := pre @ f # post\<rparr>) args =
     (case SerializeSchema (s\<lparr>Schema.Fields := pre\<rparr>) args of
        Inl err \<Rightarrow> Inl err
      | Inr a \<Rightarrow>
          (case SerializeSchema_field f a of
             Inl err \<Rightarrow> Inl err
           | Inr a' \<Rightarrow> SerializeSchema_fields post a'))"
    by (rule SerializeSchema_split)
  also have "\<dots> =
     (case SerializeSchema (s\<lparr>Schema.Fields := pre\<rparr>) args of
        Inl err \<Rightarrow> Inl err
      | Inr a \<Rightarrow>
          (case SerializeSchema_field f [] of
             Inl err \<Rightarrow> Inl err
           | Inr g \<Rightarrow>
               (case SerializeSchema_fields post [] of
                  Inl err \<Rightarrow> Inl err
                | Inr gs \<Rightarrow> Inr (a @ g @ gs))))"
  proof (cases "SerializeSchema (s\<lparr>Schema.Fields := pre\<rparr>) args")
    case (Inl err)
    then show ?thesis by simp
  next
    case (Inr a)
    show ?thesis
      using Inr SerializeSchema_field_prefix [of f a]
      by (cases "SerializeSchema_field f []")
         (simp_all add: SerializeSchema_fields_prefix [of post "a @ _"] split: sum.splits)
  qed
  finally show ?thesis .
qed

section \<open>The loops of the bulk indexing pipeline\<close>

text \<open>The first loop when every send succeeds, and when the send at position \<open>ii + k\<close>
  is the first that fails.\<close>

lemma send_loop_all_ok:
  "\<forall>j<length rest. send_result env (ii + j) = None \<Longrightarrow>
   send_loop env name opts docs ii rest n merr conn =
     (Inr (n + length rest, merr),
      conn\<lparr>sent := sent conn @
         map (\<lambda>j. (''FT.ADD'', IndexOptions_args name opts (rest ! j) (range_order env (ii + j))))
           [0..<length rest]\<rparr>)"
proof (induction rest arbitrary: ii n conn)
  case Nil
  then show ?case by simp
next
  case (Cons doc rest)
  from Cons.prems have here: "send_result env ii = None" by auto
  from Cons.prems have later: "\<forall>j<length rest. send_result env (Suc ii + j) = None" by auto
  show ?case
    using here Cons.IH [OF later]
    by (simp add: Let_def map_upt_Suc del: upt_Suc)
qed

lemma send_loop_fails:
  "k < length rest \<Longrightarrow> send_result env (ii + k) = Some err \<Longrightarrow>
   \<forall>j<k. send_result env (ii + j) = None \<Longrightarrow> ii + length rest = length docs \<Longrightarrow>
   send_loop env name opts docs ii rest n None conn =
     (Inl (Multi ((replicate (length docs) None)[ii + k := Some err])),
      conn\<lparr>sent := sent conn @
         map (\<lambda>j. (''FT.ADD'', IndexOptions_args name opts (rest ! j) (range_order env (ii + j))))
           [0..<Suc k]\<rparr>)"
proof (induction rest arbitrary: ii k n conn)
  case Nil
  then show ?case by simp
next
  case (Cons doc rest)
  show ?case
  proof (cases k)
    case 0
    with Cons.prems show ?thesis
      by (simp add: Let_def NewMultiError_def)
  next
    case (Suc k')
    from Cons.prems Suc have here: "send_result env ii = None" by auto
    from Cons.prems Suc have 1: "k' < length rest" by simp
    from Cons.prems Suc have 2: "send_result env (Suc ii + k') = Some err" by simp
    from Cons.prems Suc have 3: "\<forall>j<k'. send_result env (Suc ii + j) = None" by auto
    from Cons.prems have 4: "Suc ii + length rest = length docs" by simp
    show ?thesis
      using here Suc Cons.IH [OF 1 2 3 4]
      by (simp add: Let_def map_upt_Suc del: upt_Suc)
  qed
qed

text \<open>The second loop when every receive succeeds, and when exactly its \<open>k\<close>-th receive
  fails: the failure is stored at the value \<^verbatim>\<open>n-1\<close> has at that iteration.\<close>

lemma receive_loop_all_ok:
  "\<forall>j<n. receive_result env (receives conn + j) = None \<Longrightarrow>
   receive_loop env docs n merr conn = (Inr merr, conn\<lparr>receives := receives conn + n\<rparr>)"
proof (induction n arbitrary: conn)
  case 0
  then show ?case by simp
next
  case (Suc m)
  from Suc.prems have here: "receive_result env (receives conn) = None" by auto
  from Suc.prems
  have later: "\<forall>j<m. receive_result env (receives (conn\<lparr>receives := receives conn + 1\<rparr>) + j) = None"
    by auto
  show ?case
    using here Suc.IH [OF later] by (simp add: Let_def)
qed

lemma receive_loop_one_failure:
  "k < n \<Longrightarrow> n \<le> length docs \<Longrightarrow> receive_result env (receives conn + k) = Some err \<Longrightarrow>
   \<forall>j<n. j \<noteq> k \<longrightarrow> receive_result env (receives conn + j) = None \<Longrightarrow>
   receive_loop env docs n None conn =
     (Inr (Some ((replicate (length docs) None)[n - 1 - k := Some err])),
      conn\<lparr>receives := receives conn + n\<rparr>)"
proof (induction n arbitrary: k conn)
  case 0
  then show ?case by simp
next
  case (Suc m)
  let ?conn = "conn\<lparr>receives := receives conn + 1\<rparr>"
  show ?case
  proof (cases k)
    case 0
    from Suc.prems 0 have here: "receive_result env (receives conn) = Some err" by simp
    from Suc.prems 0
    have later: "\<forall>j<m. receive_result env (receives ?conn + j) = None" by auto
    show ?thesis
      using here Suc.prems(2) 0 receive_loop_all_ok [OF later]
      by (simp add: Let_def NewMultiError_def)
  next
    case (Suc k')
    from Suc.prems Suc have here: "receive_result env (receives conn) = None" by auto
    from Suc.prems Suc have 1: "k' < m" by simp
    from Suc.prems have 2: "m \<le> length docs" by simp
    from Suc.prems Suc have 3: "receive_result env (receives ?conn + k') = Some err" by simp
    from Suc.prems Suc
    have 4: "\<forall>j<m. j \<noteq> k' \<longrightarrow> receive_result env (receives ?conn + j) = None" by auto
    show ?thesis
      using here Suc Suc.IH [OF 1 2 3 4] by (simp add: Let_def)
  qed
qed





lemma IndexOptions_receive_failure:
  assumes "k < length docs"
    and "\<forall>j<length docs. send_result env j = None"
    and "flush_result env = None"
    and "receive_result env k = Some err"
    and "\<forall>j<length docs. j \<noteq> k \<longrightarrow> receive_result env j = None"
  shows "IndexOptions env name opts docs =
           (Multi ((replicate (length docs) None)[length docs - 1 - k := Some err]),
            \<lparr>sent = map (\<lambda>j. (''FT.ADD'', IndexOptions_args name opts (docs ! j) (range_order env j)))
                      [0..<length docs],
             flushes = 1, receives = length docs, closed = True\<rparr>)"
proof -
  let ?c0 = "\<lparr>sent = [], flushes = 0, receives = 0, closed = False\<rparr>"
  let ?sent = "map (\<lambda>j. (''FT.ADD'', IndexOptions_args name opts (docs ! j) (range_order env j)))
                      [0..<length docs]"
  let ?c1 = "\<lparr>sent = ?sent, flushes = Suc 0, receives = 0, closed = False\<rparr>"
  have sends: "send_loop env name opts docs 0 docs 0 None ?c0 =
      (Inr (length docs, None), ?c0\<lparr>sent := ?sent\<rparr>)"
    using send_loop_all_ok [of docs env 0 name opts docs 0 None ?c0] assms(2) by simp
  have recvs: "receive_loop env docs (length docs) None ?c1 =
      (Inr (Some ((replicate (length docs) None)[length docs - 1 - k := Some err])),
       ?c1\<lparr>receives := length docs\<rparr>)"
    using receive_loop_one_failure [of k "length docs" docs env ?c1 err] assms by simp
  show ?thesis
    by (simp add: IndexOptions_def Let_def sends recvs assms(3))
qed

section \<open>Paging, flags and the optional string clauses of a query\<close>

text \<open>
  Claim C4. \<^verbatim>\<open>Paging.serialize\<close> emits nothing when \<open>(Offset, Num) = (0, 10)\<close>, and for
  every other pair exactly the three tokens \<open>LIMIT\<close>, \<open>Offset\<close>, \<open>Num\<close>; so it is empty
  exactly for the default pair. In a serialized query these tokens follow the raw query
  string.
\<close>

theorem Paging_serialize_limit:
  "Paging_serialize p =
     (if (Offset p, Num p) = (0, 10) then []
      else [AStr ''LIMIT'', AInt (Offset p), AInt (Num p)])
   \<and> (Paging_serialize p = []) = ((Offset p, Num p) = (0, 10))
   \<and> take (Suc (length (Paging_serialize (Paging q)))) (Query_serialize q)
       = AStr (Raw q) # Paging_serialize (Paging q)"
  by (simp add: Paging_serialize_def DefaultOffset_def DefaultNum_def Query_serialize_layout)

text \<open>
  Claim C5. The serialization of a query is the raw string and the paging tokens, then
  one token for each of the five flags that is set, in the order \<open>VERBATIM\<close>,
  \<open>NOCONTENT\<close>, \<open>INORDER\<close>, \<open>WITHPAYLOADS\<close>, \<open>WITHSCORES\<close>, then what the
  same query without any flag has after its paging tokens. A flag that is not set has
  no token.
\<close>

theorem Query_serialize_flags:
  "Query_serialize q =
     AStr (Raw q) # Paging_serialize (Paging q)
     @ (if Flags q AND QueryVerbatim \<noteq> 0 then [AStr ''VERBATIM''] else [])
     @ (if Flags q AND QueryNoContent \<noteq> 0 then [AStr ''NOCONTENT''] else [])
     @ (if Flags q AND QueryInOrder \<noteq> 0 then [AStr ''INORDER''] else [])
     @ (if Flags q AND QueryWithPayloads \<noteq> 0 then [AStr ''WITHPAYLOADS''] else [])
     @ (if Flags q AND QueryWithScores \<noteq> 0 then [AStr ''WITHSCORES''] else [])
     @ drop (Suc (length (Paging_serialize (Paging q)))) (Query_serialize (q\<lparr>Flags := 0\<rparr>))"
  by (simp add: Query_serialize_layout flag_bits)

text \<open>
  Claim C10. The empty string is the ``unset'' value of \<^verbatim>\<open>Scorer\<close>, \<^verbatim>\<open>Language\<close> and
  \<^verbatim>\<open>Expander\<close>: around fixed tokens \<open>pre\<close> and \<open>post\<close>, which do not depend on the
  three fields, each field contributes its keyword and its value when it is not empty and
  nothing at all when it is empty.
\<close>

theorem Query_serialize_empty_string_unset:
  "\<exists>pre post. \<forall>s l e.
     Query_serialize (q\<lparr>Scorer := s, Query.Language := l, Expander := e\<rparr>) =
       pre
       @ (if s = '''' then [] else [AStr ''SCORER'', AStr s])
       @ (if l = '''' then [] else [AStr ''LANGUAGE'', AStr l])
       @ (if e = '''' then [] else [AStr ''EXPANDER'', AStr e])
       @ post"
  by (rule exI[of _ "Query_serialize (q\<lparr>Scorer := '''', Query.Language := '''', Expander := '''',
         SortBy := None, HighlightOpts := None, SummarizeOpts := None\<rparr>)"],
      rule exI[of _ "drop (length (Query_serialize (q\<lparr>Scorer := '''', Query.Language := '''',
         Expander := '''', SortBy := None, HighlightOpts := None, SummarizeOpts := None\<rparr>)))
         (Query_serialize (q\<lparr>Scorer := '''', Query.Language := '''', Expander := ''''\<rparr>))"])
     (simp add: Query_serialize_layout)

section \<open>The order of the indexing options\<close>

text \<open>
  Claim C6. \<^verbatim>\<open>SerializeIndexingOptions\<close> returns an argument list for every value of the
  options (it has no error result), and it appends, in this order: \<open>NOSAVE\<close> when
  \<^verbatim>\<open>NoSave\<close> is set; \<open>LANGUAGE\<close> and the language when that is not empty; and, when
  \<^verbatim>\<open>Replace\<close> or \<^verbatim>\<open>Partial\<close> is set, \<open>REPLACE\<close>, then \<open>PARTIAL\<close> when
  \<^verbatim>\<open>Partial\<close> is set, then \<open>IF\<close> and the condition when that is not empty. With
  \<^verbatim>\<open>Partial\<close> set, the result is the same whether or not the caller set \<^verbatim>\<open>Replace\<close>.
\<close>

theorem SerializeIndexingOptions_order:
  "SerializeIndexingOptions opts args =
     args
     @ (if NoSave opts then [AStr ''NOSAVE''] else [])
     @ (if IndexingOptions.Language opts \<noteq> '''' then [AStr ''LANGUAGE'', AStr (IndexingOptions.Language opts)] else [])
     @ (if Replace opts \<or> Partial opts
        then AStr ''REPLACE''
             # (if Partial opts then [AStr ''PARTIAL''] else [])
             @ (if ReplaceCondition opts \<noteq> '''' then [AStr ''IF'', AStr (ReplaceCondition opts)] else [])
        else [])
   \<and> SerializeIndexingOptions (opts\<lparr>Partial := True, Replace := False\<rparr>) args
       = SerializeIndexingOptions (opts\<lparr>Partial := True, Replace := True\<rparr>) args"
  by (simp add: SerializeIndexingOptions_layout)

section \<open>Schema serialization\<close>

text \<open>
  Claim C9. A text field with options contributes its name, \<open>TEXT\<close>, then
  \<open>WEIGHT\<close> and the weight exactly when the weight is neither 0 nor 1, then its
  flags. A schema in which such a field has weight 0 serializes to the same result as
  the schema in which it has weight 1: an explicit weight of 0 cannot be serialized.
\<close>

theorem SerializeSchema_weight_zero:
  "SerializeSchema_field \<lparr>Name = n, Type = TextField, Options = Some (OfTextFieldOptions opts)\<rparr> args =
     Inr (args @ [AStr n, AStr ''TEXT'']
          @ (if Weight opts = Fin 0 \<or> Weight opts = Fin 1 then [] else [AStr ''WEIGHT'', AFloat (Weight opts)])
          @ (if NoStem opts then [AStr ''NOSTEM''] else [])
          @ (if TextFieldOptions.Sortable opts then [AStr ''SORTABLE''] else [])
          @ (if TextFieldOptions.NoIndex opts then [AStr ''NOINDEX''] else []))
   \<and> SerializeSchema
         (s\<lparr>Schema.Fields :=
              pre @ \<lparr>Name = n, Type = TextField,
                     Options = Some (OfTextFieldOptions (opts\<lparr>Weight := Fin 0\<rparr>))\<rparr> # post\<rparr>) args0
       = SerializeSchema
         (s\<lparr>Schema.Fields :=
              pre @ \<lparr>Name = n, Type = TextField,
                     Options = Some (OfTextFieldOptions (opts\<lparr>Weight := Fin 1\<rparr>))\<rparr> # post\<rparr>) args0"
  by (simp add: SerializeSchema_split SerializeSchema_field_text cong: sum.case_cong)

text \<open>
  Claim C8. In a schema whose other fields serialize, a text field whose options have
  weight 1 contributes, between the output for the fields before it and the tokens of the
  fields after it, its name, \<open>TEXT\<close> and its flags, with no \<open>WEIGHT\<close> token; with
  weight 0.5 it contributes its name, \<open>TEXT\<close>, \<open>WEIGHT\<close>, \<open>0.5\<close> and its flags
  (an error of another field is returned as it is). For a schema of that field alone the
  output is given in full. A schema with a field whose options are not nil and are not of
  the struct for the field's type, or whose type is none of text, numeric and tag, is not
  serialized: \<^verbatim>\<open>SerializeSchema\<close> returns an error.
\<close>

theorem SerializeSchema_weight_and_errors:
  "SerializeSchema
     (s\<lparr>Schema.Fields :=
          pre @ \<lparr>Name = n, Type = TextField,
                 Options = Some (OfTextFieldOptions (opts\<lparr>Weight := Fin 1\<rparr>))\<rparr> # post\<rparr>) args =
     (case SerializeSchema (s\<lparr>Schema.Fields := pre\<rparr>) args of
        Inl err \<Rightarrow> Inl err
      | Inr a \<Rightarrow>
          (case SerializeSchema_fields post [] of
             Inl err \<Rightarrow> Inl err
           | Inr gs \<Rightarrow>
               Inr (a @ [AStr n, AStr ''TEXT'']
                    @ (if NoStem opts then [AStr ''NOSTEM''] else [])
                    @ (if TextFieldOptions.Sortable opts then [AStr ''SORTABLE''] else [])
                    @ (if TextFieldOptions.NoIndex opts then [AStr ''NOINDEX''] else [])
                    @ gs)))
   \<and> SerializeSchema
     (s\<lparr>Schema.Fields :=
          pre @ \<lparr>Name = n, Type = TextField,
                 Options = Some (OfTextFieldOptions (opts\<lparr>Weight := Fin (1 / 2)\<rparr>))\<rparr> # post\<rparr>) args =
     (case SerializeSchema (s\<lparr>Schema.Fields := pre\<rparr>) args of
        Inl err \<Rightarrow> Inl err
      | Inr a \<Rightarrow>
          (case SerializeSchema_fields post [] of
             Inl err \<Rightarrow> Inl err
           | Inr gs \<Rightarrow>
               Inr (a @ [AStr n, AStr ''TEXT'', AStr ''WEIGHT'', AFloat (Fin (1 / 2))]
                    @ (if NoStem opts then [AStr ''NOSTEM''] else [])
                    @ (if TextFieldOptions.Sortable opts then [AStr ''SORTABLE''] else [])
                    @ (if TextFieldOptions.NoIndex opts then [AStr ''NOINDEX''] else [])
                    @ gs)))
   \<and> SerializeSchema
     (s\<lparr>Schema.Fields :=
          [\<lparr>Name = n, Type = TextField,
              Options = Some (OfTextFieldOptions (opts\<lparr>Weight := Fin 1\<rparr>))\<rparr>]\<rparr>) args =
     Inr (args
          @ (if NoFieldFlags (Schema.Options s) then [AStr ''NOFIELDS''] else [])
          @ (if NoFrequencies (Schema.Options s) then [AStr ''NOFREQS''] else [])
          @ (if NoOffsetVectors (Schema.Options s) then [AStr ''NOOFFSETS''] else [])
          @ (case Stopwords (Schema.Options s) of
               None \<Rightarrow> []
             | Some ws \<Rightarrow> AStr ''STOPWORDS'' # AInt (int (length ws)) # map AStr ws)
          @ [AStr ''SCHEMA'', AStr n, AStr ''TEXT'']
          @ (if NoStem opts then [AStr ''NOSTEM''] else [])
          @ (if TextFieldOptions.Sortable opts then [AStr ''SORTABLE''] else [])
          @ (if TextFieldOptions.NoIndex opts then [AStr ''NOINDEX''] else []))
   \<and> SerializeSchema
     (s\<lparr>Schema.Fields :=
          [\<lparr>Name = n, Type = TextField,
              Options = Some (OfTextFieldOptions (opts\<lparr>Weight := Fin (1 / 2)\<rparr>))\<rparr>]\<rparr>) args =
     Inr (args
          @ (if NoFieldFlags (Schema.Options s) then [AStr ''NOFIELDS''] else [])
          @ (if NoFrequencies (Schema.Options s) then [AStr ''NOFREQS''] else [])
          @ (if NoOffsetVectors (Schema.Options s) then [AStr ''NOOFFSETS''] else [])
          @ (case Stopwords (Schema.Options s) of
               None \<Rightarrow> []
             | Some ws \<Rightarrow> AStr ''STOPWORDS'' # AInt (int (length ws)) # map AStr ws)
          @ [AStr ''SCHEMA'', AStr n, AStr ''TEXT'', AStr ''WEIGHT'', AFloat (Fin (1 / 2))]
          @ (if NoStem opts then [AStr ''NOSTEM''] else [])
          @ (if TextFieldOptions.Sortable opts then [AStr ''SORTABLE''] else [])
          @ (if TextFieldOptions.NoIndex opts then [AStr ''NOINDEX''] else []))
   \<and> (f \<in> set (Schema.Fields s) \<and>
        ((\<exists>v. Field.Options f = Some v \<and>
               (Type f = TextField \<and> (\<forall>opts. v \<noteq> OfTextFieldOptions opts)
                \<or> Type f = NumericField \<and> (\<forall>opts. v \<noteq> OfNumericFieldOptions opts)
                \<or> Type f = TagField \<and> (\<forall>opts. v \<noteq> OfTagFieldOptions opts)))
         \<or> Type f \<notin> {TextField, NumericField, TagField})
        \<longrightarrow> (\<exists>err. SerializeSchema s args = Inl err))"
proof (intro conjI impI)
  show "SerializeSchema
     (s\<lparr>Schema.Fields :=
          pre @ \<lparr>Name = n, Type = TextField,
                 Options = Some (OfTextFieldOptions (opts\<lparr>Weight := Fin 1\<rparr>))\<rparr> # post\<rparr>) args =
     (case SerializeSchema (s\<lparr>Schema.Fields := pre\<rparr>) args of
        Inl err \<Rightarrow> Inl err
      | Inr a \<Rightarrow>
          (case SerializeSchema_fields post [] of
             Inl err \<Rightarrow> Inl err
           | Inr gs \<Rightarrow>
               Inr (a @ [AStr n, AStr ''TEXT'']
                    @ (if NoStem opts then [AStr ''NOSTEM''] else [])
                    @ (if TextFieldOptions.Sortable opts then [AStr ''SORTABLE''] else [])
                    @ (if TextFieldOptions.NoIndex opts then [AStr ''NOINDEX''] else [])
                    @ gs)))"
    by (simp add: SerializeSchema_split_output SerializeSchema_field_text cong: sum.case_cong)
  show "SerializeSchema
     (s\<lparr>Schema.Fields :=
          pre @ \<lparr>Name = n, Type = TextField,
                 Options = Some (OfTextFieldOptions (opts\<lparr>Weight := Fin (1 / 2)\<rparr>))\<rparr> # post\<rparr>) args =
     (case SerializeSchema (s\<lparr>Schema.Fields := pre\<rparr>) args of
        Inl err \<Rightarrow> Inl err
      | Inr a \<Rightarrow>
          (case SerializeSchema_fields post [] of
             Inl err \<Rightarrow> Inl err
           | Inr gs \<Rightarrow>
               Inr (a @ [AStr n, AStr ''TEXT'', AStr ''WEIGHT'', AFloat (Fin (1 / 2))]
                    @ (if NoStem opts then [AStr ''NOSTEM''] else [])
                    @ (if TextFieldOptions.Sortable opts then [AStr ''SORTABLE''] else [])
                    @ (if TextFieldOptions.NoIndex opts then [AStr ''NOINDEX''] else [])
                    @ gs)))"
    by (simp add: SerializeSchema_split_output SerializeSchema_field_text cong: sum.case_cong)
  show "SerializeSchema
     (s\<lparr>Schema.Fields :=
          [\<lparr>Name = n, Type = TextField,
              Options = Some (OfTextFieldOptions (opts\<lparr>Weight := Fin 1\<rparr>))\<rparr>]\<rparr>) args =
     Inr (args
          @ (if NoFieldFlags (Schema.Options s) then [AStr ''NOFIELDS''] else [])
          @ (if NoFrequencies (Schema.Options s) then [AStr ''NOFREQS''] else [])
          @ (if NoOffsetVectors (Schema.Options s) then [AStr ''NOOFFSETS''] else [])
          @ (case Stopwords (Schema.Options s) of
               None \<Rightarrow> []
             | Some ws \<Rightarrow> AStr ''STOPWORDS'' # AInt (int (length ws)) # map AStr ws)
          @ [AStr ''SCHEMA'', AStr n, AStr ''TEXT'']
          @ (if NoStem opts then [AStr ''NOSTEM''] else [])
          @ (if TextFieldOptions.Sortable opts then [AStr ''SORTABLE''] else [])
          @ (if TextFieldOptions.NoIndex opts then [AStr ''NOINDEX''] else []))"
    by (simp add: SerializeSchema_output SerializeSchema_field_text)
  show "SerializeSchema
     (s\<lparr>Schema.Fields :=
          [\<lparr>Name = n, Type = TextField,
              Options = Some (OfTextFieldOptions (opts\<lparr>Weight := Fin (1 / 2)\<rparr>))\<rparr>]\<rparr>) args =
     Inr (args
          @ (if NoFieldFlags (Schema.Options s) then [AStr ''NOFIELDS''] else [])
          @ (if NoFrequencies (Schema.Options s) then [AStr ''NOFREQS''] else [])
          @ (if NoOffsetVectors (Schema.Options s) then [AStr ''NOOFFSETS''] else [])
          @ (case Stopwords (Schema.Options s) of
               None \<Rightarrow> []
             | Some ws \<Rightarrow> AStr ''STOPWORDS'' # AInt (int (length ws)) # map AStr ws)
          @ [AStr ''SCHEMA'', AStr n, AStr ''TEXT'', AStr ''WEIGHT'', AFloat (Fin (1 / 2))]
          @ (if NoStem opts then [AStr ''NOSTEM''] else [])
          @ (if TextFieldOptions.Sortable opts then [AStr ''SORTABLE''] else [])
          @ (if TextFieldOptions.NoIndex opts then [AStr ''NOINDEX''] else []))"
    by (simp add: SerializeSchema_output SerializeSchema_field_text)
next
  assume bad: "f \<in> set (Schema.Fields s) \<and>
        ((\<exists>v. Field.Options f = Some v \<and>
               (Type f = TextField \<and> (\<forall>opts. v \<noteq> OfTextFieldOptions opts)
                \<or> Type f = NumericField \<and> (\<forall>opts. v \<noteq> OfNumericFieldOptions opts)
                \<or> Type f = TagField \<and> (\<forall>opts. v \<noteq> OfTagFieldOptions opts)))
         \<or> Type f \<notin> {TextField, NumericField, TagField})"
  then have "\<forall>a. \<exists>err. SerializeSchema_field f a = Inl err"
    using SerializeSchema_field_error [of f] by blast
  with bad show "\<exists>err. SerializeSchema s args = Inl err"
    unfolding SerializeSchema_layout by (blast intro: SerializeSchema_fields_error)
qed

text \<open>Two instances: a text field that carries numeric field options, and a schema of
  three fields whose second is a text field of weight 0.5.\<close>

theorem SerializeSchema_weight_and_errors_witness:
  "\<lparr>Name = ''price'', Type = TextField,
      Options = Some (OfNumericFieldOptions \<lparr>NumericFieldOptions.Sortable = True, NoIndex = False\<rparr>)\<rparr>
     \<in> set (Schema.Fields
          \<lparr>Schema.Fields = [\<lparr>Name = ''title'', Type = TextField, Options = None\<rparr>,
                     \<lparr>Name = ''price'', Type = TextField,
                        Options = Some (OfNumericFieldOptions \<lparr>NumericFieldOptions.Sortable = True, NoIndex = False\<rparr>)\<rparr>],
             Options = \<lparr>NoFieldFlags = False, NoFrequencies = False, NoOffsetVectors = False,
                          Stopwords = None\<rparr>\<rparr>)
   \<and> (\<forall>opts. OfNumericFieldOptions \<lparr>NumericFieldOptions.Sortable = True, NoIndex = False\<rparr> \<noteq> OfTextFieldOptions opts)
   \<and> (\<exists>err. SerializeSchema
          \<lparr>Schema.Fields = [\<lparr>Name = ''title'', Type = TextField, Options = None\<rparr>,
                     \<lparr>Name = ''price'', Type = TextField,
                        Options = Some (OfNumericFieldOptions \<lparr>NumericFieldOptions.Sortable = True, NoIndex = False\<rparr>)\<rparr>],
             Options = \<lparr>NoFieldFlags = False, NoFrequencies = False, NoOffsetVectors = False,
                          Stopwords = None\<rparr>\<rparr> [] = Inl err)
   \<and> SerializeSchema
          \<lparr>Schema.Fields =
             [\<lparr>Name = ''title'', Type = TextField, Options = None\<rparr>,
              \<lparr>Name = ''body'', Type = TextField,
                 Options = Some (OfTextFieldOptions
                   \<lparr>Weight = Fin (1 / 2), Sortable = False, NoStem = True, NoIndex = False\<rparr>)\<rparr>,
              \<lparr>Name = ''price'', Type = NumericField,
                 Options = Some (OfNumericFieldOptions
                   \<lparr>NumericFieldOptions.Sortable = True, NoIndex = False\<rparr>)\<rparr>],
           Options = \<lparr>NoFieldFlags = False, NoFrequencies = False, NoOffsetVectors = False,
                        Stopwords = None\<rparr>\<rparr> []
       = Inr [AStr ''SCHEMA'', AStr ''title'', AStr ''TEXT'',
              AStr ''body'', AStr ''TEXT'', AStr ''WEIGHT'', AFloat (Fin (1 / 2)), AStr ''NOSTEM'',
              AStr ''price'', AStr ''NUMERIC'', AStr ''SORTABLE'']"
proof -
  let ?o = "\<lparr>NoFieldFlags = False, NoFrequencies = False, NoOffsetVectors = False,
              Stopwords = None\<rparr>"
  let ?bad = "\<lparr>Name = ''price'', Type = TextField,
      Options = Some (OfNumericFieldOptions \<lparr>NumericFieldOptions.Sortable = True, NoIndex = False\<rparr>)\<rparr>"
  have err: "\<exists>err. SerializeSchema
      \<lparr>Schema.Fields = [\<lparr>Name = ''title'', Type = TextField, Options = None\<rparr>, ?bad],
         Options = ?o\<rparr> [] = Inl err"
    using SerializeSchema_weight_and_errors
      [where f = ?bad
         and s = "\<lparr>Schema.Fields = [\<lparr>Name = ''title'', Type = TextField, Options = None\<rparr>, ?bad],
                    Options = ?o\<rparr>"
         and args = "[]"]
    by simp
  have ok: "SerializeSchema
          \<lparr>Schema.Fields =
             [\<lparr>Name = ''title'', Type = TextField, Options = None\<rparr>,
              \<lparr>Name = ''body'', Type = TextField,
                 Options = Some (OfTextFieldOptions
                   \<lparr>Weight = Fin (1 / 2), Sortable = False, NoStem = True, NoIndex = False\<rparr>)\<rparr>,
              \<lparr>Name = ''price'', Type = NumericField,
                 Options = Some (OfNumericFieldOptions
                   \<lparr>NumericFieldOptions.Sortable = True, NoIndex = False\<rparr>)\<rparr>],
           Options = ?o\<rparr> []
       = Inr [AStr ''SCHEMA'', AStr ''title'', AStr ''TEXT'',
              AStr ''body'', AStr ''TEXT'', AStr ''WEIGHT'', AFloat (Fin (1 / 2)), AStr ''NOSTEM'',
              AStr ''price'', AStr ''NUMERIC'', AStr ''SORTABLE'']"
    using SerializeSchema_weight_and_errors
      [where s = "\<lparr>Schema.Fields = [], Options = ?o\<rparr>"
         and pre = "[\<lparr>Name = ''title'', Type = TextField, Options = None\<rparr>]"
         and n = "''body''"
         and opts = "\<lparr>Weight = Fin (1 / 2), Sortable = False, NoStem = True, NoIndex = False\<rparr>"
         and post = "[\<lparr>Name = ''price'', Type = NumericField,
                 Options = Some (OfNumericFieldOptions
                   \<lparr>NumericFieldOptions.Sortable = True, NoIndex = False\<rparr>)\<rparr>]"
         and args = "[]"]
    by (simp add: SerializeSchema_def SerializeSchema_field_def Let_def)
  from err ok show ?thesis by simp
qed

section \<open>Nil and empty collections\<close>

text \<open>
  Claim C3, as stated, fails for the field lists of highlight and summarize: a highlight
  field list that is empty but not nil emits no \<open>FIELDS 0\<close>; the tokens are those of a
  nil list.
\<close>

theorem Query_serialize_empty_highlight_fields:
  "Query_serialize
     \<lparr>Raw = ''hello'', Paging = \<lparr>Offset = 0, Num = 10\<rparr>, Flags = 0, Slop = 0, Filters = [],
      InKeys = None, ReturnFields = None, Language = '''', Expander = '''', Scorer = '''',
      Payload = None, SortBy = None,
      HighlightOpts = Some \<lparr>HighlightOptions.Fields = Some [], Tags = (''<b>'', ''</b>'')\<rparr>,
      SummarizeOpts = None\<rparr>
   = [AStr ''hello'', AStr ''HIGHLIGHT'', AStr ''TAGS'', AStr ''<b>'', AStr ''</b>'']
   \<and> AStr ''FIELDS'' \<notin> set (Query_serialize
     \<lparr>Raw = ''hello'', Paging = \<lparr>Offset = 0, Num = 10\<rparr>, Flags = 0, Slop = 0, Filters = [],
      InKeys = None, ReturnFields = None, Language = '''', Expander = '''', Scorer = '''',
      Payload = None, SortBy = None,
      HighlightOpts = Some \<lparr>HighlightOptions.Fields = Some [], Tags = (''<b>'', ''</b>'')\<rparr>,
      SummarizeOpts = None\<rparr>)"
  by (simp add: Query_serialize_layout Paging_serialize_def DefaultOffset_def DefaultNum_def)

text \<open>
  Claim C3, amended. For \<^verbatim>\<open>InKeys\<close>, \<^verbatim>\<open>ReturnFields\<close> and the stopwords of a schema,
  a nil collection contributes nothing and a collection that is not nil contributes its
  keyword, its length and its elements, so an empty one contributes the keyword and
  \<open>0\<close>. For the field lists of highlight and summarize, the \<open>FIELDS\<close> clause is
  there only when the list is neither nil nor empty: a nil list and an empty list both
  contribute nothing. In each case the tokens around the clause do not depend on the
  collection. For the stopwords, the clause stands in the output of \<^verbatim>\<open>SerializeSchema\<close>
  between fixed tokens and \<open>SCHEMA\<close>, which the tokens of the fields follow (when a field
  is in error, that error is the result); for a schema without fields the output is given
  in full.
\<close>

theorem collections_nil_and_empty:
  "(\<exists>pre post. \<forall>ks.
      Query_serialize (q\<lparr>InKeys := ks\<rparr>) =
        pre
        @ (case ks of None \<Rightarrow> []
           | Some xs \<Rightarrow> AStr ''INKEYS'' # AInt (int (length xs)) # map AStr xs)
        @ post)
   \<and> (\<exists>pre post. \<forall>fs.
      Query_serialize (q\<lparr>ReturnFields := fs\<rparr>) =
        pre
        @ (case fs of None \<Rightarrow> []
           | Some xs \<Rightarrow> AStr ''RETURN'' # AInt (int (length xs)) # map AStr xs)
        @ post)
   \<and> (\<exists>pre. \<forall>ws.
      SerializeSchema (s\<lparr>Schema.Options := (Schema.Options s)\<lparr>Stopwords := ws\<rparr>\<rparr>) args =
        (case SerializeSchema_fields (Schema.Fields s) [] of
           Inl err \<Rightarrow> Inl err
         | Inr groups \<Rightarrow>
             Inr (pre
                  @ (case ws of None \<Rightarrow> []
                     | Some xs \<Rightarrow> AStr ''STOPWORDS'' # AInt (int (length xs)) # map AStr xs)
                  @ AStr ''SCHEMA'' # groups))
      \<and> SerializeSchema
          (s\<lparr>Schema.Fields := [], Schema.Options := (Schema.Options s)\<lparr>Stopwords := ws\<rparr>\<rparr>) args =
        Inr (pre
             @ (case ws of None \<Rightarrow> []
                | Some xs \<Rightarrow> AStr ''STOPWORDS'' # AInt (int (length xs)) # map AStr xs)
             @ [AStr ''SCHEMA'']))
   \<and> (\<exists>pre post. \<forall>fs.
      Query_serialize (q\<lparr>HighlightOpts := Some (h\<lparr>HighlightOptions.Fields := fs\<rparr>)\<rparr>) =
        pre
        @ AStr ''HIGHLIGHT''
        # (case fs of None \<Rightarrow> [] | Some [] \<Rightarrow> []
           | Some xs \<Rightarrow> AStr ''FIELDS'' # AInt (int (length xs)) # map AStr xs)
        @ post)
   \<and> (\<exists>pre post. \<forall>fs.
      Query_serialize (q\<lparr>SummarizeOpts := Some (u\<lparr>SummaryOptions.Fields := fs\<rparr>)\<rparr>) =
        pre
        @ AStr ''SUMMARIZE''
        # (case fs of None \<Rightarrow> [] | Some [] \<Rightarrow> []
           | Some xs \<Rightarrow> AStr ''FIELDS'' # AInt (int (length xs)) # map AStr xs)
        @ post)"
proof (intro conjI)
  let ?upto_flags = "Query_serialize (q\<lparr>InKeys := None, ReturnFields := None, Scorer := '''',
         Query.Language := '''', Expander := '''', SortBy := None, HighlightOpts := None,
         SummarizeOpts := None\<rparr>)"
  let ?upto_inkeys = "Query_serialize (q\<lparr>ReturnFields := None, Scorer := '''',
         Query.Language := '''', Expander := '''', SortBy := None, HighlightOpts := None,
         SummarizeOpts := None\<rparr>)"
  let ?upto_sortby = "Query_serialize (q\<lparr>HighlightOpts := None, SummarizeOpts := None\<rparr>)"
  let ?upto_highlight = "Query_serialize (q\<lparr>SummarizeOpts := None\<rparr>)"
  show "\<exists>pre post. \<forall>ks.
      Query_serialize (q\<lparr>InKeys := ks\<rparr>) =
        pre
        @ (case ks of None \<Rightarrow> []
           | Some xs \<Rightarrow> AStr ''INKEYS'' # AInt (int (length xs)) # map AStr xs)
        @ post"
    by (rule exI[of _ ?upto_flags],
        rule exI[of _ "drop (length ?upto_flags) (Query_serialize (q\<lparr>InKeys := None\<rparr>))"])
       (simp add: Query_serialize_layout)
  show "\<exists>pre post. \<forall>fs.
      Query_serialize (q\<lparr>ReturnFields := fs\<rparr>) =
        pre
        @ (case fs of None \<Rightarrow> []
           | Some xs \<Rightarrow> AStr ''RETURN'' # AInt (int (length xs)) # map AStr xs)
        @ post"
    by (rule exI[of _ ?upto_inkeys],
        rule exI[of _ "drop (length ?upto_inkeys) (Query_serialize (q\<lparr>ReturnFields := None\<rparr>))"])
       (simp add: Query_serialize_layout)
  show "\<exists>pre. \<forall>ws.
      SerializeSchema (s\<lparr>Schema.Options := (Schema.Options s)\<lparr>Stopwords := ws\<rparr>\<rparr>) args =
        (case SerializeSchema_fields (Schema.Fields s) [] of
           Inl err \<Rightarrow> Inl err
         | Inr groups \<Rightarrow>
             Inr (pre
                  @ (case ws of None \<Rightarrow> []
                     | Some xs \<Rightarrow> AStr ''STOPWORDS'' # AInt (int (length xs)) # map AStr xs)
                  @ AStr ''SCHEMA'' # groups))
      \<and> SerializeSchema
          (s\<lparr>Schema.Fields := [], Schema.Options := (Schema.Options s)\<lparr>Stopwords := ws\<rparr>\<rparr>) args =
        Inr (pre
             @ (case ws of None \<Rightarrow> []
                | Some xs \<Rightarrow> AStr ''STOPWORDS'' # AInt (int (length xs)) # map AStr xs)
             @ [AStr ''SCHEMA''])"
    by (rule exI[of _ "args
          @ (if NoFieldFlags (Schema.Options s) then [AStr ''NOFIELDS''] else [])
          @ (if NoFrequencies (Schema.Options s) then [AStr ''NOFREQS''] else [])
          @ (if NoOffsetVectors (Schema.Options s) then [AStr ''NOOFFSETS''] else [])"])
       (simp add: SerializeSchema_output cong: sum.case_cong)
  show "\<exists>pre post. \<forall>fs.
      Query_serialize (q\<lparr>HighlightOpts := Some (h\<lparr>HighlightOptions.Fields := fs\<rparr>)\<rparr>) =
        pre
        @ AStr ''HIGHLIGHT''
        # (case fs of None \<Rightarrow> [] | Some [] \<Rightarrow> []
           | Some xs \<Rightarrow> AStr ''FIELDS'' # AInt (int (length xs)) # map AStr xs)
        @ post"
    by (rule exI[of _ ?upto_sortby],
        rule exI[of _ "AStr ''TAGS'' # AStr (fst (Tags h)) # AStr (snd (Tags h))
           # drop (length ?upto_highlight) (Query_serialize q)"])
       (simp add: Query_serialize_layout split: option.split list.split)
  show "\<exists>pre post. \<forall>fs.
      Query_serialize (q\<lparr>SummarizeOpts := Some (u\<lparr>SummaryOptions.Fields := fs\<rparr>)\<rparr>) =
        pre
        @ AStr ''SUMMARIZE''
        # (case fs of None \<Rightarrow> [] | Some [] \<Rightarrow> []
           | Some xs \<Rightarrow> AStr ''FIELDS'' # AInt (int (length xs)) # map AStr xs)
        @ post"
    by (rule exI[of _ ?upto_highlight],
        rule exI[of _ "drop (Suc (length ?upto_highlight))
           (Query_serialize (q\<lparr>SummarizeOpts := Some (u\<lparr>SummaryOptions.Fields := None\<rparr>)\<rparr>))"])
       (simp add: Query_serialize_layout split: option.split list.split)
qed

section \<open>Failures in the bulk indexing pipeline\<close>

text \<open>
  Claim C2. When the send of the document at position \<open>i\<close> fails (the sends before it
  having succeeded), \<^verbatim>\<open>IndexOptions\<close> returns a \<^verbatim>\<open>MultiError\<close> as long as the batch, with
  the failure at slot \<open>i\<close> and every other slot absent, and the connection has seen the
  sends for the positions up to \<open>i\<close> only: no later send, no flush and no receive.
\<close>

theorem IndexOptions_send_failure:
  assumes "i < length docs"
    and "send_result env i = Some err"
    and "\<forall>j<i. send_result env j = None"
  shows "IndexOptions env name opts docs =
           (Multi ((replicate (length docs) None)[i := Some err]),
            \<lparr>sent = map (\<lambda>j. (''FT.ADD'', IndexOptions_args name opts (docs ! j) (range_order env j)))
                      [0..<Suc i],
             flushes = 0, receives = 0, closed = True\<rparr>)
         \<and> (\<exists>merr conn. IndexOptions env name opts docs = (Multi merr, conn)
              \<and> length merr = length docs \<and> merr ! i = Some err
              \<and> (\<forall>j<length docs. j \<noteq> i \<longrightarrow> merr ! j = None)
              \<and> length (sent conn) = Suc i \<and> flushes conn = 0 \<and> receives conn = 0)"
proof -
  have run: "IndexOptions env name opts docs =
           (Multi ((replicate (length docs) None)[i := Some err]),
            \<lparr>sent = map (\<lambda>j. (''FT.ADD'', IndexOptions_args name opts (docs ! j) (range_order env j)))
                      [0..<Suc i],
             flushes = 0, receives = 0, closed = True\<rparr>)"
    using send_loop_fails [of i docs env 0 err docs name opts 0
        "\<lparr>sent = [], flushes = 0, receives = 0, closed = False\<rparr>"] assms
    by (simp add: IndexOptions_def Let_def del: upt_Suc)
  moreover have "\<forall>j<length docs. j \<noteq> i \<longrightarrow> (replicate (length docs) None)[i := Some err] ! j = None"
    by simp
  ultimately show ?thesis
    using assms(1) by (simp del: upt_Suc)
qed

text \<open>An instance: three documents, the second send fails.\<close>

theorem IndexOptions_send_failure_witness:
  "(1::nat) < length [doc_foo ''doc0'', doc_foo ''doc1'', doc_foo ''doc2'']
   \<and> send_result
        \<lparr>send_result = (\<lambda>i. if i = 1 then Some (Error ''write failed'') else None),
           flush_result = None, receive_result = (\<lambda>i. None),
           range_order = (\<lambda>i. [(''foo'', AStr ''hello world'')])\<rparr> 1
       = Some (Error ''write failed'')
   \<and> send_result
        \<lparr>send_result = (\<lambda>i. if i = 1 then Some (Error ''write failed'') else None),
           flush_result = None, receive_result = (\<lambda>i. None),
           range_order = (\<lambda>i. [(''foo'', AStr ''hello world'')])\<rparr> 0
       = None
   \<and> fst (IndexOptions
        \<lparr>send_result = (\<lambda>i. if i = 1 then Some (Error ''write failed'') else None),
           flush_result = None, receive_result = (\<lambda>i. None),
           range_order = (\<lambda>i. [(''foo'', AStr ''hello world'')])\<rparr>
        ''idx'' default_opts [doc_foo ''doc0'', doc_foo ''doc1'', doc_foo ''doc2''])
       = Multi [None, Some (Error ''write failed''), None]
   \<and> length (sent (snd (IndexOptions
        \<lparr>send_result = (\<lambda>i. if i = 1 then Some (Error ''write failed'') else None),
           flush_result = None, receive_result = (\<lambda>i. None),
           range_order = (\<lambda>i. [(''foo'', AStr ''hello world'')])\<rparr>
        ''idx'' default_opts [doc_foo ''doc0'', doc_foo ''doc1'', doc_foo ''doc2'']))) = 2"
proof -
  let ?env = "\<lparr>send_result = (\<lambda>i. if i = 1 then Some (Error ''write failed'') else None),
           flush_result = None, receive_result = (\<lambda>i. None),
           range_order = (\<lambda>i. [(''foo'', AStr ''hello world'')])\<rparr>"
  let ?docs = "[doc_foo ''doc0'', doc_foo ''doc1'', doc_foo ''doc2'']"
  have 1: "(1::nat) < length ?docs" by simp
  have 2: "send_result ?env 1 = Some (Error ''write failed'')" by simp
  have 3: "\<forall>j<1. send_result ?env j = None" by simp
  from 1 2 IndexOptions_send_failure [OF 1 2 3, of "''idx''" default_opts]
  show ?thesis by (simp del: upt_Suc)
qed

text \<open>
  Claim C1 at a batch of two documents in which the receive for the document at position
  0 fails and everything else succeeds: both replies are received, and the one failure
  is in slot 1 of the \<^verbatim>\<open>MultiError\<close>, not in slot 0.
\<close>

theorem IndexOptions_receive_failure_slot:
  "fst (IndexOptions
     \<lparr>send_result = (\<lambda>i. None), flush_result = None,
        receive_result = (\<lambda>i. if i = 0 then Some (Error ''rejected'') else None),
        range_order = (\<lambda>i. [(''foo'', AStr ''hello world'')])\<rparr>
     ''idx''
     default_opts [doc_foo ''doc0'', doc_foo ''doc1''])
   = Multi [None, Some (Error ''rejected'')]
   \<and> receives (snd (IndexOptions
     \<lparr>send_result = (\<lambda>i. None), flush_result = None,
        receive_result = (\<lambda>i. if i = 0 then Some (Error ''rejected'') else None),
        range_order = (\<lambda>i. [(''foo'', AStr ''hello world'')])\<rparr>
     ''idx''
     default_opts [doc_foo ''doc0'', doc_foo ''doc1'']))
     = 2"
  by (simp add: IndexOptions_def Let_def NewMultiError_def)

section \<open>Determinism of the serialized arguments\<close>




end
